theory Spec2Isabelle
  imports Main "HOL-Library.Sublist"
begin

unbundle bit_operations_syntax

section \<open>Exceptions\<close>

text \<open>
  The classes of the exceptions that \<^verbatim>\<open>beyond_compare_script.py\<close>, \<^verbatim>\<open>utilities.py\<close> and
  the library calls they make can raise. \<^verbatim>\<open>EnvironmentError\<close> is, in Python 3, another name
  of \<^verbatim>\<open>OSError\<close>. \<open>OtherException\<close> stands for any class unrelated to the listed ones
  (objects passed as keyword arguments may raise what they like).
\<close>

datatype exc_class =
    OSError
  | FileNotFoundError
  | FileExistsError
  | NotADirectoryError
  | IsADirectoryError
  | ValueError
  | UnicodeDecodeError
  | KeyError
  | IndexError
  | TypeError
  | AttributeError
  | RuntimeError
  | OtherException string

abbreviation EnvironmentError :: exc_class where
  "EnvironmentError \<equiv> OSError"

text \<open>An exception is its class and the message \<^verbatim>\<open>str(e)\<close>. The message is kept for the
  exceptions the two modules raise themselves; exceptions raised inside the library carry
  the empty message here.\<close>

datatype exception = Exception (exc_class: exc_class) (exc_msg: string)

text \<open>\<open>is_subclass c d\<close>: an \<^verbatim>\<open>except d\<close> clause catches an exception of class \<open>c\<close>.\<close>

definition is_subclass :: "exc_class \<Rightarrow> exc_class \<Rightarrow> bool" where
  "is_subclass c d \<longleftrightarrow>
     c = d \<or>
     (d = OSError \<and> c \<in> {FileNotFoundError, FileExistsError, NotADirectoryError, IsADirectoryError}) \<or>
     (d = ValueError \<and> c = UnicodeDecodeError)"

abbreviation raise :: "exc_class \<Rightarrow> string \<Rightarrow> exception + 'a" where
  "raise c m \<equiv> Inl (Exception c m)"

section \<open>The file system\<close>

text \<open>
  A \<^verbatim>\<open>pathlib.Path\<close> is the list of its components below the root; \<^verbatim>\<open>p / name\<close> appends a
  component and \<^verbatim>\<open>p.parent\<close> drops the last one (the root is its own parent). \<open>path_str\<close> is
  \<^verbatim>\<open>str(p)\<close>. Texts are held in their UTF-8 encoding, one \<open>char\<close> per byte.
\<close>

type_synonym path = "string list"

definition path_str :: "path \<Rightarrow> string" where
  "path_str p = (if p = [] then ''/'' else concat (map (\<lambda>c. CHR ''/'' # c) p))"

definition parent :: "path \<Rightarrow> path" where
  "parent p = butlast p"

text \<open>A node is a directory or a regular file with its permission bits (the part of
  \<^verbatim>\<open>st_mode\<close> that \<^verbatim>\<open>& 0o111\<close> reads) and, for a file, its content.\<close>

datatype node = Dir (st_mode: int) | File (st_mode: int) (content: string)

type_synonym filesystem = "path \<rightharpoonup> node"

text \<open>Path resolution: every proper prefix of the path must be a directory. \<open>walk fs pre cs\<close>
  has resolved \<open>pre\<close> and still has to descend through \<open>cs\<close>.\<close>

fun walk :: "filesystem \<Rightarrow> path \<Rightarrow> path \<Rightarrow> exc_class option" where
  "walk fs pre [] = None"
| "walk fs pre (c # cs) =
     (case fs pre of
        None \<Rightarrow> Some FileNotFoundError
      | Some (File m s) \<Rightarrow> Some NotADirectoryError
      | Some (Dir m) \<Rightarrow> walk fs (pre @ [c]) cs)"

definition os_stat :: "filesystem \<Rightarrow> path \<Rightarrow> exception + node" where
  "os_stat fs p =
     (case walk fs [] p of
        Some c \<Rightarrow> raise c []
      | None \<Rightarrow> (case fs p of None \<Rightarrow> raise FileNotFoundError [] | Some n \<Rightarrow> Inr n))"

text \<open>\<^verbatim>\<open>Path.exists\<close> and \<^verbatim>\<open>Path.is_dir\<close> answer False where \<^verbatim>\<open>stat\<close> fails with a missing
  or non-directory component.\<close>

definition path_exists :: "filesystem \<Rightarrow> path \<Rightarrow> bool" where
  "path_exists fs p = (case os_stat fs p of Inl e \<Rightarrow> False | Inr n \<Rightarrow> True)"

definition is_dir :: "filesystem \<Rightarrow> path \<Rightarrow> bool" where
  "is_dir fs p = (case os_stat fs p of Inr (Dir m) \<Rightarrow> True | _ \<Rightarrow> False)"

definition is_file :: "filesystem \<Rightarrow> path \<Rightarrow> bool" where
  "is_file fs p = (case os_stat fs p of Inr (File m s) \<Rightarrow> True | _ \<Rightarrow> False)"

definition apply_umask :: "int \<Rightarrow> int \<Rightarrow> int" where
  "apply_umask m um = m AND NOT um"

definition os_mkdir :: "int \<Rightarrow> filesystem \<Rightarrow> path \<Rightarrow> exception + filesystem" where
  "os_mkdir m fs p =
     (case walk fs [] p of
        Some c \<Rightarrow> raise c []
      | None \<Rightarrow> (case fs p of Some n \<Rightarrow> raise FileExistsError [] | None \<Rightarrow> Inr (fs(p \<mapsto> Dir m))))"

text \<open>
  \<^verbatim>\<open>Path.mkdir(mode=0o777, parents, exist_ok)\<close> of the standard library:
  \<^verbatim>\<open>
    try: os.mkdir(self, mode)
    except FileNotFoundError:
        if not parents or self.parent == self: raise
        self.parent.mkdir(parents=True, exist_ok=True)
        self.mkdir(mode, parents=False, exist_ok=exist_ok)
    except OSError:
        if not exist_ok or not self.is_dir(): raise
  \<close>
\<close>

function mkdir :: "int \<Rightarrow> bool \<Rightarrow> bool \<Rightarrow> filesystem \<Rightarrow> path \<Rightarrow> exception + filesystem" where
  "mkdir um parents exist_ok fs p =
     (case os_mkdir (apply_umask 511 um) fs p of
        Inr fs' \<Rightarrow> Inr fs'
      | Inl e \<Rightarrow>
          if exc_class e = FileNotFoundError then
            (if \<not> parents \<or> parent p = p then Inl e
             else (case mkdir um True True fs (parent p) of
                     Inl e' \<Rightarrow> Inl e'
                   | Inr fs1 \<Rightarrow> mkdir um False exist_ok fs1 p))
          else if \<not> exist_ok \<or> \<not> is_dir fs p then Inl e
          else Inr fs)"
  by pat_completeness auto
termination
  by (relation "measure (\<lambda>(um, parents, exist_ok, fs, p). 2 * length p + (if parents then 1 else 0))")
     (auto simp: parent_def butlast_conv_take)

declare mkdir.simps [simp del]

definition os_unlink :: "filesystem \<Rightarrow> path \<Rightarrow> exception + filesystem" where
  "os_unlink fs p =
     (case walk fs [] p of
        Some c \<Rightarrow> raise c []
      | None \<Rightarrow>
          (case fs p of
             None \<Rightarrow> raise FileNotFoundError []
           | Some (Dir m) \<Rightarrow> raise IsADirectoryError []
           | Some (File m s) \<Rightarrow> Inr (fs(p := None))))"

text \<open>Opening for writing (\<^verbatim>\<open>open(p, "w")\<close>) creates the file or truncates it.\<close>

definition open_w :: "int \<Rightarrow> filesystem \<Rightarrow> path \<Rightarrow> exception + filesystem" where
  "open_w um fs p =
     (case walk fs [] p of
        Some c \<Rightarrow> raise c []
      | None \<Rightarrow>
          (case fs p of
             None \<Rightarrow> Inr (fs(p \<mapsto> File (apply_umask 438 um) []))
           | Some (Dir m) \<Rightarrow> raise IsADirectoryError []
           | Some (File m s) \<Rightarrow> Inr (fs(p \<mapsto> File m []))))"

definition write_text :: "filesystem \<Rightarrow> path \<Rightarrow> string \<Rightarrow> filesystem" where
  "write_text fs p s =
     (case fs p of Some (File m old) \<Rightarrow> fs(p \<mapsto> File m (old @ s)) | _ \<Rightarrow> fs)"

section \<open>The world around a runner\<close>

datatype level = DEBUG | INFO | ERROR

record world =
  fs :: filesystem
  umask :: int
  log :: "(level \<times> string) list"
  console :: "string list"

definition logger :: "level \<Rightarrow> string \<Rightarrow> world \<Rightarrow> world" where
  "logger l m w = w\<lparr>log := log w @ [(l, m)]\<rparr>"

definition print :: "string \<Rightarrow> world \<Rightarrow> world" where
  "print s w = w\<lparr>console := console w @ [s]\<rparr>"

section \<open>The clock\<close>

text \<open>\<^verbatim>\<open>datetime.now()\<close> is an input of the model: the fields of the value read.\<close>

record datetime =
  year :: nat
  month :: nat
  day :: nat
  hour :: nat
  minute :: nat
  second :: nat

definition valid_datetime :: "datetime \<Rightarrow> bool" where
  "valid_datetime t \<longleftrightarrow>
     1000 \<le> year t \<and> year t \<le> 9999 \<and> 1 \<le> month t \<and> month t \<le> 12 \<and>
     1 \<le> day t \<and> day t \<le> 31 \<and> hour t \<le> 23 \<and> minute t \<le> 59 \<and> second t \<le> 59"

definition digit_char :: "nat \<Rightarrow> char" where
  "digit_char d = ''0123456789'' ! (d mod 10)"

text \<open>\<open>zpad k n\<close>: the last \<open>k\<close> decimal digits of \<open>n\<close>, zero-padded, which is how \<^verbatim>\<open>strftime\<close>
  prints a field of a valid \<open>datetime\<close> (years from 1000 on, where all platforms agree).\<close>

fun zpad :: "nat \<Rightarrow> nat \<Rightarrow> string" where
  "zpad 0 n = []"
| "zpad (Suc k) n = zpad k (n div 10) @ [digit_char n]"

text \<open>\<^verbatim>\<open>currentDate.strftime("%Y%m%d-%H%M%S")\<close>\<close>

definition strftime :: "datetime \<Rightarrow> string" where
  "strftime t =
     zpad 4 (year t) @ zpad 2 (month t) @ zpad 2 (day t) @ ''-'' @
     zpad 2 (hour t) @ zpad 2 (minute t) @ zpad 2 (second t)"

section \<open>The script runner\<close>

text \<open>The fields of a \<^verbatim>\<open>BeyondCompareScript\<close> instance. \<^verbatim>\<open>__init__\<close> tests
  \<^verbatim>\<open>executable_path is None\<close>, so that field is optional as well.\<close>

record runner =
  executable_path :: "path option"
  script_data :: string
  data_directory :: path
  subprocess_command :: "string list option"
  current_run_directory :: "path option"
  script_path :: "path option"

text \<open>A path inside an f-string: \<^verbatim>\<open>f'{p}'\<close>.\<close>

definition fstr :: "path option \<Rightarrow> string" where
  "fstr p = (case p of None \<Rightarrow> ''None'' | Some q \<Rightarrow> path_str q)"

definition not_found_msg :: "path option \<Rightarrow> string" where
  "not_found_msg p = ''Beyond Compare executable not found at `'' @ fstr p @ ''`.''"

text \<open>\<^verbatim>\<open>BeyondCompareScript.__init__\<close>: the result is the new instance, or the exception that
  leaves the constructor, together with the world it leaves behind.\<close>

definition construct ::
  "path option \<Rightarrow> string \<Rightarrow> path \<Rightarrow> world \<Rightarrow> (exception + runner) \<times> world" where
  "construct exe sd dd w =
     (case mkdir (umask w) True True (fs w) dd of
        Inl e \<Rightarrow> (Inl e, w)
      | Inr fs1 \<Rightarrow>
          let r = \<lparr>executable_path = exe, script_data = sd, data_directory = dd,
                   subprocess_command = None, current_run_directory = None,
                   script_path = None\<rparr>;
              w1 = logger DEBUG ''Ensuring executable exists and is an executable file.''
                     (w\<lparr>fs := fs1\<rparr>)
          in (case exe of
                None \<Rightarrow> (raise EnvironmentError (not_found_msg exe), w1)
              | Some p \<Rightarrow>
                  (case os_stat (fs w1) p of
                     Inl e \<Rightarrow> (Inl e, w1)
                   | Inr n \<Rightarrow>
                       if st_mode n AND 73 = 0
                       then (raise EnvironmentError (not_found_msg exe), w1)
                       else (Inr r, w1))))"

text \<open>\<^verbatim>\<open>prepare_current_run_directory\<close>, with the clock reading as an argument.\<close>

definition prepare_current_run_directory ::
  "runner \<Rightarrow> datetime \<Rightarrow> world \<Rightarrow> (exception + path) \<times> runner \<times> world" where
  "prepare_current_run_directory r now w =
     (let d = data_directory r @ [strftime now];
          r1 = r\<lparr>current_run_directory := Some d\<rparr>;
          w1 = logger INFO (''Creating current run directory at '' @ path_str d) w
      in (case mkdir (umask w1) True True (fs w1) d of
            Inl e \<Rightarrow> (Inl e, r1, w1)
          | Inr fs1 \<Rightarrow> (Inr d, r1, w1\<lparr>fs := fs1\<rparr>)))"

definition script_file_name :: string where
  "script_file_name = ''beyond_compare_script.txt''"

text \<open>\<^verbatim>\<open>prepare_subprocess_command\<close>\<close>

definition prepare_subprocess_command ::
  "runner \<Rightarrow> world \<Rightarrow> (exception + string list) \<times> runner \<times> world" where
  "prepare_subprocess_command r w =
     (case script_path r of
        None \<Rightarrow> (raise FileNotFoundError ''Script file not found.'', r, w)
      | Some sp \<Rightarrow>
          if \<not> path_exists (fs w) sp
          then (raise FileNotFoundError ''Script file not found.'', r, w)
          else
            let w1 = logger INFO (''Preparing subprocess command for script at '' @ path_str sp) w;
                command = [fstr (executable_path r), ''@'' @ path_str sp, ''/silent'']
            in (Inr command, r\<lparr>subprocess_command := Some command\<rparr>, w1))"

text \<open>\<^verbatim>\<open>remove_script\<close>\<close>

definition remove_script :: "runner \<Rightarrow> world \<Rightarrow> (exception + unit) \<times> runner \<times> world" where
  "remove_script r w =
     (case script_path r of
        None \<Rightarrow> (raise FileNotFoundError ''Script file not found.'', r, w)
      | Some sp \<Rightarrow>
          if path_exists (fs w) sp
          then
            let w1 = logger INFO (''Removing script file at '' @ path_str sp) w
            in (case os_unlink (fs w1) sp of
                  Inl e \<Rightarrow> (Inl e, r, w1)
                | Inr fs1 \<Rightarrow> (Inr (), r, w1\<lparr>fs := fs1\<rparr>))
          else (raise FileNotFoundError ''Script file not found.'', r, w))"

section \<open>Text encoding\<close>

text \<open>\<^verbatim>\<open>bytes.decode()\<close> decodes UTF-8 strictly: it raises \<^verbatim>\<open>UnicodeDecodeError\<close> unless the
  bytes are well-formed UTF-8 (no overlong form, no surrogate, nothing above U+10FFFF).
  Since texts are held UTF-8 encoded, the decoded text of well-formed bytes is the bytes.\<close>

definition cont :: "nat \<Rightarrow> bool" where
  "cont b \<longleftrightarrow> 128 \<le> b \<and> b \<le> 191"

fun utf8_ok :: "nat list \<Rightarrow> bool" where
  "utf8_ok [] = True"
| "utf8_ok (a # bs) =
     (if a < 128 then utf8_ok bs
      else if 194 \<le> a \<and> a \<le> 223 then
        (case bs of b # r \<Rightarrow> cont b \<and> utf8_ok r | _ \<Rightarrow> False)
      else if 224 \<le> a \<and> a \<le> 239 then
        (case bs of
           b # c # r \<Rightarrow>
             cont b \<and> cont c \<and> (a = 224 \<longrightarrow> 160 \<le> b) \<and> (a = 237 \<longrightarrow> b \<le> 159) \<and> utf8_ok r
         | _ \<Rightarrow> False)
      else if 240 \<le> a \<and> a \<le> 244 then
        (case bs of
           b # c # d # r \<Rightarrow>
             cont b \<and> cont c \<and> cont d \<and> (a = 240 \<longrightarrow> 144 \<le> b) \<and> (a = 244 \<longrightarrow> b \<le> 143) \<and>
             utf8_ok r
         | _ \<Rightarrow> False)
      else False)"

definition bytes_decode :: "string \<Rightarrow> exception + string" where
  "bytes_decode bs = (if utf8_ok (map of_char bs) then Inr bs else raise UnicodeDecodeError [])"

text \<open>The bytes of the first character of a text, by its lead byte, and the code point
  they encode.\<close>

definition utf8_len :: "char \<Rightarrow> nat" where
  "utf8_len c =
     (let b = (of_char c :: nat)
      in if 192 \<le> b \<and> b < 224 then 2 else if 224 \<le> b \<and> b < 240 then 3
         else if 240 \<le> b \<and> b < 248 then 4 else 1)"

fun chars :: "string \<Rightarrow> string list" where
  "chars [] = []"
| "chars (c # cs) = (c # take (utf8_len c - 1) cs) # chars (drop (utf8_len c - 1) cs)"

definition code_point :: "string \<Rightarrow> nat" where
  "code_point s =
     (case map of_char s of
        [a] \<Rightarrow> a
      | [a, b] \<Rightarrow> (a mod 32) * 64 + b mod 64
      | [a, b, c] \<Rightarrow> (a mod 16) * 4096 + (b mod 64) * 64 + c mod 64
      | [a, b, c, d] \<Rightarrow> (a mod 8) * 262144 + (b mod 64) * 4096 + (c mod 64) * 64 + d mod 64
      | _ \<Rightarrow> 0)"

section \<open>\<^verbatim>\<open>str.format(**kwargs)\<close>\<close>

text \<open>
  The keyword arguments are arbitrary objects. What \<^verbatim>\<open>str.format\<close> asks of them is a
  parameter of the model: \<^verbatim>\<open>format(v, spec)\<close>, the conversions \<^verbatim>\<open>repr\<close>, \<^verbatim>\<open>str\<close> and
  \<^verbatim>\<open>ascii\<close>, attribute access and subscription, each of which may raise. The table of the
  decimal digits of Unicode (code point to digit value) is a parameter as well.
\<close>

datatype subscript = Index nat | Key string

record 'v host =
  obj_format :: "'v \<Rightarrow> string \<Rightarrow> exception + string"
  obj_repr :: "'v \<Rightarrow> exception + 'v"
  obj_str :: "'v \<Rightarrow> exception + 'v"
  obj_ascii :: "'v \<Rightarrow> exception + 'v"
  obj_getattr :: "'v \<Rightarrow> string \<Rightarrow> exception + 'v"
  obj_getitem :: "'v \<Rightarrow> subscript \<Rightarrow> exception + 'v"
  to_decimal :: "nat \<Rightarrow> nat option"

text \<open>A replacement field \<^verbatim>\<open>{field_name!conversion:format_spec}\<close>; \<open>needs_expanding\<close> says
  that the format spec holds replacement fields of its own.\<close>

datatype field =
  Field (field_name: string) (conversion: "string option") (format_spec: string)
    (needs_expanding: bool)

text \<open>What the scan of a format string yields, in order: literal text, a replacement
  field, or the \<^verbatim>\<open>ValueError\<close> at which the scan stops.\<close>

datatype item = Literal string | Markup field | Malformed exception

datatype pstate =
    Text
  | Name string
  | Bracket string
  | Conv string string nat
  | Spec string "string option" string nat bool

text \<open>
  The scanner of \<^verbatim>\<open>str.format\<close>, one character at a time. In \<open>Text\<close> a doubled brace is a
  literal brace, a single \<^verbatim>\<open>}\<close> is an error and a single \<^verbatim>\<open>{\<close> opens a field. \<open>Name n\<close> reads
  the field name up to \<^verbatim>\<open>}\<close>, \<^verbatim>\<open>:\<close> or \<^verbatim>\<open>!\<close>, where a \<^verbatim>\<open>[\<close> hides everything up to the next
  \<^verbatim>\<open>]\<close> (\<open>Bracket n\<close>). \<open>Conv n cv k\<close> has read the bytes \<open>cv\<close> of the conversion character and
  waits for \<open>k\<close> more of them. \<open>Spec n cv sp cnt ex\<close> reads the format spec up to the \<^verbatim>\<open>}\<close> that
  closes the field, counting nested braces.
\<close>

fun scan :: "pstate \<Rightarrow> string \<Rightarrow> item list" where
  "scan Text [] = []"
| "scan Text (c # cs) =
     (if c = CHR ''{'' then
        (case cs of
           [] \<Rightarrow> [Malformed (Exception ValueError [])]
         | d # ds \<Rightarrow> if d = CHR ''{'' then Literal [c] # scan Text ds else scan (Name []) cs)
      else if c = CHR ''}'' then
        (case cs of
           [] \<Rightarrow> [Malformed (Exception ValueError [])]
         | d # ds \<Rightarrow>
             if d = CHR ''}'' then Literal [c] # scan Text ds
             else [Malformed (Exception ValueError [])])
      else Literal [c] # scan Text cs)"
| "scan (Name n) [] = [Malformed (Exception ValueError [])]"
| "scan (Name n) (c # cs) =
     (if c = CHR ''{'' then [Malformed (Exception ValueError [])]
      else if c = CHR ''['' then scan (Bracket (n @ [c])) cs
      else if c = CHR ''}'' then Markup (Field n None [] False) # scan Text cs
      else if c = CHR '':'' then scan (Spec n None [] 1 False) cs
      else if c = CHR ''!'' then
        (case cs of
           [] \<Rightarrow> [Malformed (Exception ValueError [])]
         | d # ds \<Rightarrow> scan (Conv n [d] (utf8_len d - 1)) ds)
      else scan (Name (n @ [c])) cs)"
| "scan (Bracket n) [] = [Malformed (Exception ValueError [])]"
| "scan (Bracket n) (c # cs) =
     (if c = CHR '']'' then scan (Name (n @ [c])) cs else scan (Bracket (n @ [c])) cs)"
| "scan (Conv n cv k) [] = [Malformed (Exception ValueError [])]"
| "scan (Conv n cv (Suc k)) (c # cs) = scan (Conv n (cv @ [c]) k) cs"
| "scan (Conv n cv 0) (c # cs) =
     (if c = CHR ''}'' then Markup (Field n (Some cv) [] False) # scan Text cs
      else if c = CHR '':'' then scan (Spec n (Some cv) [] 1 False) cs
      else [Malformed (Exception ValueError [])])"
| "scan (Spec n cv sp cnt ex) [] = [Malformed (Exception ValueError [])]"
| "scan (Spec n cv sp cnt ex) (c # cs) =
     (if c = CHR ''{'' then scan (Spec n cv (sp @ [c]) (Suc cnt) True) cs
      else if c = CHR ''}'' then
        (if cnt = 1 then Markup (Field n cv sp ex) # scan Text cs
         else scan (Spec n cv (sp @ [c]) (cnt - 1) ex) cs)
      else scan (Spec n cv (sp @ [c]) cnt ex) cs)"

definition markup :: "string \<Rightarrow> item list" where
  "markup s = scan Text s"

text \<open>\<^verbatim>\<open>get_integer\<close>: the number a text of decimal digits denotes, \<open>None\<close> when the text is empty
  or has another character, and \<^verbatim>\<open>ValueError\<close> once the number passes the largest index
  (\<^verbatim>\<open>PY_SSIZE_T_MAX\<close> of a 64-bit build).\<close>

definition PY_SSIZE_T_MAX :: nat where
  "PY_SSIZE_T_MAX = 9223372036854775807"

fun get_integer_from :: "(nat \<Rightarrow> nat option) \<Rightarrow> nat \<Rightarrow> string list \<Rightarrow> exception + nat option" where
  "get_integer_from dec acc [] = Inr (Some acc)"
| "get_integer_from dec acc (ch # chs) =
     (case dec (code_point ch) of
        None \<Rightarrow> Inr None
      | Some d \<Rightarrow>
          if acc > (PY_SSIZE_T_MAX - d) div 10 then raise ValueError []
          else get_integer_from dec (acc * 10 + d) chs)"

definition get_integer :: "(nat \<Rightarrow> nat option) \<Rightarrow> string \<Rightarrow> exception + nat option" where
  "get_integer dec s = (if s = [] then Inr None else get_integer_from dec 0 (chars s))"

definition in_first :: "char \<Rightarrow> bool" where
  "in_first c \<longleftrightarrow> c \<noteq> CHR ''.'' \<and> c \<noteq> CHR ''[''"

text \<open>The rest of a field name: \<^verbatim>\<open>.attribute\<close> and \<^verbatim>\<open>[subscript]\<close> accesses, applied in turn
  to the object the first part of the name stands for.\<close>

function field_rest :: "'v host \<Rightarrow> 'v \<Rightarrow> string \<Rightarrow> exception + 'v" where
  "field_rest H v [] = Inr v"
| "field_rest H v (c # cs) =
     (if c = CHR ''.'' then
        (let name = takeWhile in_first cs; rest = dropWhile in_first cs
         in if name = [] then raise ValueError []
            else (case obj_getattr H v name of
                    Inl e \<Rightarrow> Inl e
                  | Inr v' \<Rightarrow> field_rest H v' rest))
      else if c = CHR ''['' then
        (if CHR '']'' \<notin> set cs then raise ValueError []
         else
           (let name = takeWhile (\<lambda>x. x \<noteq> CHR '']'') cs;
                rest = tl (dropWhile (\<lambda>x. x \<noteq> CHR '']'') cs)
            in (case get_integer (to_decimal H) name of
                  Inl e \<Rightarrow> Inl e
                | Inr idx \<Rightarrow>
                    if name = [] then raise ValueError []
                    else (case obj_getitem H v (case idx of None \<Rightarrow> Key name | Some i \<Rightarrow> Index i) of
                            Inl e \<Rightarrow> Inl e
                          | Inr v' \<Rightarrow> field_rest H v' rest))))
      else raise ValueError [])"
  by pat_completeness auto
termination
proof (relation "measure (\<lambda>(H, v, s). length s)")
  show "wf (measure (\<lambda>(H, v, s). length s))"
    by simp
next
  fix H :: "'v host" and v v' :: 'v and c :: char and cs name rest :: string
  assume "rest = dropWhile in_first cs"
  then show "((H, v', rest), (H, v, c # cs)) \<in> measure (\<lambda>(H, v, s). length s)"
    by (simp add: le_imp_less_Suc length_dropWhile_le)
next
  fix H :: "'v host" and v v' :: 'v and c :: char and cs name rest :: string
  assume "rest = tl (dropWhile (\<lambda>x. x \<noteq> CHR '']'') cs)"
  then have "length rest \<le> length (dropWhile (\<lambda>x. x \<noteq> CHR '']'') cs)"
    by simp
  also have "\<dots> \<le> length cs"
    by (rule length_dropWhile_le)
  finally show "((H, v', rest), (H, v, c # cs)) \<in> measure (\<lambda>(H, v, s). length s)"
    by simp
qed

declare field_rest.simps [simp del]

text \<open>\<^verbatim>\<open>get_field_object\<close>: a field whose first part is empty or a number indexes the
  positional arguments, of which \<^verbatim>\<open>format(**kwargs)\<close> has none; any other first part is
  looked up among the keyword arguments.\<close>

definition get_field_object :: "'v host \<Rightarrow> (string \<rightharpoonup> 'v) \<Rightarrow> string \<Rightarrow> exception + 'v" where
  "get_field_object H kw name =
     (let first = takeWhile in_first name; rest = dropWhile in_first name
      in (case get_integer (to_decimal H) first of
            Inl e \<Rightarrow> Inl e
          | Inr (Some i) \<Rightarrow> raise IndexError []
          | Inr None \<Rightarrow>
              if first = [] then raise IndexError []
              else (case kw first of
                      None \<Rightarrow> raise KeyError []
                    | Some v \<Rightarrow> field_rest H v rest)))"

definition do_conversion :: "'v host \<Rightarrow> string option \<Rightarrow> 'v \<Rightarrow> exception + 'v" where
  "do_conversion H cv v =
     (case cv of
        None \<Rightarrow> Inr v
      | Some c \<Rightarrow>
          if c = ''r'' then obj_repr H v
          else if c = ''s'' then obj_str H v
          else if c = ''a'' then obj_ascii H v
          else raise ValueError [])"

text \<open>\<^verbatim>\<open>output_markup\<close>: the object, then its conversion, then the format spec (expanded by
  \<open>expand\<close> when it has fields of its own), then \<^verbatim>\<open>format(object, spec)\<close>.\<close>

definition output_markup ::
  "(string \<Rightarrow> exception + string) \<Rightarrow> 'v host \<Rightarrow> (string \<rightharpoonup> 'v) \<Rightarrow> field \<Rightarrow> exception + string" where
  "output_markup expand H kw f =
     (case get_field_object H kw (field_name f) of
        Inl e \<Rightarrow> Inl e
      | Inr v \<Rightarrow>
          (case do_conversion H (conversion f) v of
             Inl e \<Rightarrow> Inl e
           | Inr v' \<Rightarrow>
               (case (if needs_expanding f then expand (format_spec f) else Inr (format_spec f)) of
                  Inl e \<Rightarrow> Inl e
                | Inr sp \<Rightarrow> obj_format H v' sp)))"

fun render_items ::
  "(string \<Rightarrow> exception + string) \<Rightarrow> 'v host \<Rightarrow> (string \<rightharpoonup> 'v) \<Rightarrow> item list \<Rightarrow> exception + string" where
  "render_items expand H kw [] = Inr []"
| "render_items expand H kw (Literal s # rest) =
     (case render_items expand H kw rest of Inl e \<Rightarrow> Inl e | Inr r \<Rightarrow> Inr (s @ r))"
| "render_items expand H kw (Malformed e # rest) = Inl e"
| "render_items expand H kw (Markup f # rest) =
     (case output_markup expand H kw f of
        Inl e \<Rightarrow> Inl e
      | Inr s \<Rightarrow> (case render_items expand H kw rest of Inl e \<Rightarrow> Inl e | Inr r \<Rightarrow> Inr (s @ r)))"

text \<open>\<^verbatim>\<open>build_string\<close> with its recursion depth: a format spec is expanded one level below
  the string that holds it, and at depth 0 the expansion is refused.\<close>

primrec build_string :: "nat \<Rightarrow> 'v host \<Rightarrow> (string \<rightharpoonup> 'v) \<Rightarrow> string \<Rightarrow> exception + string" where
  "build_string 0 H kw s = raise ValueError []"
| "build_string (Suc d) H kw s = render_items (build_string d H kw) H kw (markup s)"

text \<open>\<^verbatim>\<open>template.format(**kw)\<close>\<close>

definition py_format :: "'v host \<Rightarrow> string \<Rightarrow> (string \<rightharpoonup> 'v) \<Rightarrow> exception + string" where
  "py_format H template kw = build_string 2 H kw template"

section \<open>Writing and running the script\<close>

text \<open>\<^verbatim>\<open>write_new_script(**kwargs)\<close>. The file is opened, and so created or truncated, before
  the template is formatted; the run directory is reset only after the \<^verbatim>\<open>async with\<close> block
  has ended normally. (A keyword named \<^verbatim>\<open>self\<close> never reaches the body: the call itself is
  refused.)\<close>

definition write_new_script ::
  "'v host \<Rightarrow> runner \<Rightarrow> (string \<rightharpoonup> 'v) \<Rightarrow> world \<Rightarrow> (exception + unit) \<times> runner \<times> world" where
  "write_new_script H r kwargs w =
     (case current_run_directory r of
        None \<Rightarrow> (raise ValueError ''Current run directory not set. Set it up first.'', r, w)
      | Some d \<Rightarrow>
          let w1 = logger INFO (''Writing new script file to '' @ path_str d) w;
              sp = d @ [script_file_name];
              r1 = r\<lparr>script_path := Some sp\<rparr>
          in (case open_w (umask w1) (fs w1) sp of
                Inl e \<Rightarrow> (Inl e, r1, w1)
              | Inr fs1 \<Rightarrow>
                  (case py_format H (script_data r1) kwargs of
                     Inl e \<Rightarrow> (Inl e, r1, w1\<lparr>fs := fs1\<rparr>)
                   | Inr text \<Rightarrow>
                       (Inr (), r1\<lparr>current_run_directory := None\<rparr>,
                        w1\<lparr>fs := write_text fs1 sp text\<rparr>))))"

text \<open>What the operating system answers when the command is launched: the launch fails, or
  the child runs to its end, leaving an exit status, the bytes of its two output streams
  and its changes to the file system.\<close>

datatype child =
    Launch_failed exception
  | Exited (returncode: int) (stdout: string) (stderr: string) (effect: "filesystem \<Rightarrow> filesystem")

text \<open>\<^verbatim>\<open>run_command\<close> of \<^verbatim>\<open>utilities.py\<close>. \<open>str_list\<close> is \<^verbatim>\<open>str\<close> of a list of strings (the
  \<^verbatim>\<open>{command}\<close> of the f-string).\<close>

definition run_command ::
  "(string list \<Rightarrow> string) \<Rightarrow> string list \<Rightarrow> bool \<Rightarrow> child \<Rightarrow> world \<Rightarrow> (exception + unit) \<times> world" where
  "run_command str_list command print_output ch w =
     (case ch of
        Launch_failed e \<Rightarrow> (Inl e, w)
      | Exited rc out err eff \<Rightarrow>
          let w1 = w\<lparr>fs := eff (fs w)\<rparr>
          in if rc \<noteq> 0 then
               (case bytes_decode err of
                  Inl e \<Rightarrow> (Inl e, w1)
                | Inr t \<Rightarrow>
                    (raise RuntimeError (''Command failed: '' @ str_list command @ [CHR 0x0A] @ t), w1))
             else if print_output then
               (case bytes_decode out of
                  Inl e \<Rightarrow> (Inl e, w1)
                | Inr so \<Rightarrow>
                    (case bytes_decode err of
                       Inl e \<Rightarrow> (Inl e, print so w1)
                     | Inr t \<Rightarrow> (Inr (), print t (print so w1))))
             else (Inr (), w1))"

text \<open>\<^verbatim>\<open>run_script(print_output)\<close>: only a \<^verbatim>\<open>RuntimeError\<close> is caught and logged.\<close>

definition run_script ::
  "(string list \<Rightarrow> string) \<Rightarrow> runner \<Rightarrow> bool \<Rightarrow> child \<Rightarrow> world \<Rightarrow> (exception + unit) \<times> runner \<times> world" where
  "run_script str_list r print_output ch w =
     (case prepare_subprocess_command r w of
        (Inl e, r1, w1) \<Rightarrow> (Inl e, r1, w1)
      | (Inr command, r1, w1) \<Rightarrow>
          let w2 = logger INFO (''Running script at '' @ fstr (script_path r1)) w1
          in (case run_command str_list command print_output ch w2 of
                (Inl e, w3) \<Rightarrow>
                  if is_subclass (exc_class e) RuntimeError
                  then (Inr (), r1,
                        logger ERROR (''Error running script at '' @ fstr (script_path r1) @ '': '' @ exc_msg e) w3)
                  else (Inl e, r1, w3)
              | (Inr u, w3) \<Rightarrow> (Inr (), r1, w3)))"

section \<open>Callers and examples\<close>

text \<open>A caller that goes on after an exception: the calls other than
  \<^verbatim>\<open>prepare_current_run_directory\<close>, each leaving the runner and the world it ends in.\<close>

datatype 'v call =
    Write_new_script "string \<rightharpoonup> 'v"
  | Prepare_subprocess_command
  | Run_script bool child
  | Remove_script

fun perform ::
  "'v host \<Rightarrow> (string list \<Rightarrow> string) \<Rightarrow> runner \<times> world \<Rightarrow> 'v call \<Rightarrow> runner \<times> world" where
  "perform H sl (r, w) (Write_new_script kw) = snd (write_new_script H r kw w)"
| "perform H sl (r, w) Prepare_subprocess_command = snd (prepare_subprocess_command r w)"
| "perform H sl (r, w) (Run_script b ch) = snd (run_script sl r b ch w)"
| "perform H sl (r, w) Remove_script = snd (remove_script r w)"

text \<open>The values used in the examples: keyword arguments that are texts, formatted as they
  are under the empty format spec (as \<^verbatim>\<open>str\<close> and \<^verbatim>\<open>pathlib.Path\<close> objects are) and refused
  under any other; a file system with an executable \<^verbatim>\<open>/bc\<close> and a run directory holding a
  script; a runner on them.\<close>

definition text_host :: "string host" where
  "text_host =
     \<lparr>obj_format = (\<lambda>v sp. if sp = [] then Inr v else raise TypeError []),
      obj_repr = (\<lambda>v. raise TypeError []), obj_str = (\<lambda>v. Inr v),
      obj_ascii = (\<lambda>v. raise TypeError []),
      obj_getattr = (\<lambda>v n. raise AttributeError []),
      obj_getitem = (\<lambda>v k. raise TypeError []),
      to_decimal = (\<lambda>c. if 48 \<le> c \<and> c \<le> 57 then Some (c - 48) else None)\<rparr>"

definition run_dir :: path where
  "run_dir = [''data'', ''20240105-090359'']"

definition fresh_world :: world where
  "fresh_world = \<lparr>fs = [[] \<mapsto> Dir 493], umask = 18, log = [], console = []\<rparr>"

definition example_world :: world where
  "example_world =
     \<lparr>fs = [[] \<mapsto> Dir 493, [''bc''] \<mapsto> File 493 [], [''data''] \<mapsto> Dir 493, run_dir \<mapsto> Dir 493,
            run_dir @ [script_file_name] \<mapsto> File 420 ''old''],
      umask = 18, log = [], console = []\<rparr>"

definition example_runner :: runner where
  "example_runner =
     \<lparr>executable_path = Some [''bc''], script_data = ''Hello {name}'',
      data_directory = [''data''], subprocess_command = None,
      current_run_directory = Some run_dir,
      script_path = Some (run_dir @ [script_file_name])\<rparr>"

section \<open>Properties of the file system\<close>

lemma logger_simps [simp]:
  "fs (logger l m w) = fs w" "umask (logger l m w) = umask w"
  "log (logger l m w) = log w @ [(l, m)]" "console (logger l m w) = console w"
  by (simp_all add: logger_def)

lemma walk_upd_same:
  "length p \<ge> length pre + length cs \<Longrightarrow> walk (g(p := x)) pre cs = walk g pre cs"
proof (induction cs arbitrary: pre)
  case Nil
  then show ?case by simp
next
  case (Cons c cs)
  then have ne: "pre \<noteq> p" by auto
  have ih: "walk (g(p := x)) (pre @ [c]) cs = walk g (pre @ [c]) cs"
    by (rule Cons.IH) (use Cons.prems in simp)
  show ?case by (simp only: walk.simps fun_upd_other[OF ne] ih)
qed

lemma walk_upd_path: "walk (g(p := x)) [] p = walk g [] p"
  by (rule walk_upd_same) simp

lemma unlink_gone:
  "os_unlink g p = Inr g' \<Longrightarrow> \<not> path_exists g' p"
  by (auto simp: os_unlink_def path_exists_def os_stat_def walk_upd_path
      split: option.splits node.splits)

lemma is_file_unlink:
  "is_file g p \<Longrightarrow> os_unlink g p = Inr (g(p := None))"
  by (auto simp: os_unlink_def is_file_def os_stat_def split: option.splits node.splits sum.splits)

lemma is_file_exists: "is_file g p \<Longrightarrow> path_exists g p"
  by (auto simp: is_file_def path_exists_def split: sum.splits)

section \<open>Example evaluations\<close>

lemma example_format:
  "py_format text_host ''Hello {name}'' [''name'' \<mapsto> ''World''] = Inr ''Hello World''"
  by (simp add: py_format_def numeral_2_eq_2 markup_def output_markup_def get_field_object_def
      get_integer_def in_first_def do_conversion_def text_host_def field_rest.simps
      utf8_len_def code_point_def)

lemma example_is_file: "is_file (fs example_world) (run_dir @ [script_file_name])"
  by (simp add: example_world_def run_dir_def script_file_name_def is_file_def os_stat_def)

section \<open>The command line\<close>

text \<open>Claim C4. \<^verbatim>\<open>prepare_subprocess_command\<close> returns exactly the three arguments
  executable path, \<^verbatim>\<open>@\<close> followed by the script path, and \<^verbatim>\<open>/silent\<close>, when the script path
  is set and the file exists; in every other state it raises \<^verbatim>\<open>FileNotFoundError\<close>.\<close>

theorem prepare_subprocess_command_returns:
  "fst (prepare_subprocess_command r w) =
     (if \<exists>sp. script_path r = Some sp \<and> path_exists (fs w) sp
      then Inr [fstr (executable_path r), ''@'' @ path_str (the (script_path r)), ''/silent'']
      else raise FileNotFoundError ''Script file not found.'')"
  by (simp add: prepare_subprocess_command_def Let_def split: option.splits)

theorem prepare_subprocess_command_example:
  "fst (prepare_subprocess_command example_runner example_world) =
     Inr [''/bc'', ''@/data/20240105-090359/beyond_compare_script.txt'', ''/silent''] \<and>
   fst (prepare_subprocess_command (example_runner\<lparr>script_path := None\<rparr>) example_world) =
     raise FileNotFoundError ''Script file not found.''"
  using prepare_subprocess_command_returns [of example_runner example_world]
    prepare_subprocess_command_returns [of "example_runner\<lparr>script_path := None\<rparr>" example_world]
    is_file_exists [OF example_is_file]
  by (simp add: example_runner_def run_dir_def script_file_name_def fstr_def path_str_def)

section \<open>Removing the script\<close>

lemma remove_script_deletes:
  assumes "script_path r = Some sp" and "is_file (fs w) sp"
  shows "\<exists>w'. remove_script r w = (Inr (), r, w') \<and> fs w' = (fs w)(sp := None) \<and>
           \<not> path_exists (fs w') sp \<and>
           remove_script r w' = (raise FileNotFoundError ''Script file not found.'', r, w')"
proof -
  let ?w1 = "logger INFO (''Removing script file at '' @ path_str sp) w"
  let ?w' = "?w1\<lparr>fs := (fs w)(sp := None)\<rparr>"
  have un: "os_unlink (fs w) sp = Inr ((fs w)(sp := None))"
    using assms(2) by (rule is_file_unlink)
  have gone: "\<not> path_exists ((fs w)(sp := None)) sp"
    using un by (rule unlink_gone)
  have 1: "remove_script r w = (Inr (), r, ?w')"
    using assms is_file_exists[OF assms(2)] un by (simp add: remove_script_def Let_def)
  have 2: "remove_script r ?w' = (raise FileNotFoundError ''Script file not found.'', r, ?w')"
    using assms(1) gone by (simp add: remove_script_def)
  show ?thesis using 1 2 gone by (intro exI[of _ ?w']) simp
qed

lemma remove_script_not_found:
  "script_path r = None \<or> (\<exists>sp. script_path r = Some sp \<and> \<not> path_exists (fs w) sp) \<Longrightarrow>
   remove_script r w = (raise FileNotFoundError ''Script file not found.'', r, w)"
  by (auto simp: remove_script_def)

text \<open>Claim C7. When the script path is set and names a file, \<^verbatim>\<open>remove_script\<close> deletes
  the file and leaves the runner, and so its script path, as it was, so that the same call
  made again finds the path set, the file missing, and raises \<^verbatim>\<open>FileNotFoundError\<close>. It
  raises \<^verbatim>\<open>FileNotFoundError\<close> too, changing nothing, whenever the path is unset or nothing
  exists at it.\<close>

theorem remove_script_then_not_found:
  "(script_path r = Some sp \<and> is_file (fs w) sp \<longrightarrow>
      (\<exists>w'. remove_script r w = (Inr (), r, w') \<and> fs w' = (fs w)(sp := None) \<and>
            \<not> path_exists (fs w') sp \<and> script_path r \<noteq> None \<and>
            remove_script r w' = (raise FileNotFoundError ''Script file not found.'', r, w'))) \<and>
   (script_path r = None \<or> (\<exists>q. script_path r = Some q \<and> \<not> path_exists (fs w) q) \<longrightarrow>
      remove_script r w = (raise FileNotFoundError ''Script file not found.'', r, w))"
proof (intro conjI impI)
  assume a: "script_path r = Some sp \<and> is_file (fs w) sp"
  then have "script_path r \<noteq> None" by simp
  with remove_script_deletes [of r sp w] a
  show "\<exists>w'. remove_script r w = (Inr (), r, w') \<and> fs w' = (fs w)(sp := None) \<and>
            \<not> path_exists (fs w') sp \<and> script_path r \<noteq> None \<and>
            remove_script r w' = (raise FileNotFoundError ''Script file not found.'', r, w')"
    by blast
next
  assume "script_path r = None \<or> (\<exists>q. script_path r = Some q \<and> \<not> path_exists (fs w) q)"
  then show "remove_script r w = (raise FileNotFoundError ''Script file not found.'', r, w)"
    by (rule remove_script_not_found)
qed

theorem remove_script_example:
  "(\<exists>w'. remove_script example_runner example_world = (Inr (), example_runner, w') \<and>
         fs w' = (fs example_world)(run_dir @ [script_file_name] := None) \<and>
         \<not> path_exists (fs w') (run_dir @ [script_file_name]) \<and>
         script_path example_runner \<noteq> None \<and>
         remove_script example_runner w' =
           (raise FileNotFoundError ''Script file not found.'', example_runner, w')) \<and>
   remove_script (example_runner\<lparr>script_path := None\<rparr>) example_world =
     (raise FileNotFoundError ''Script file not found.'', example_runner\<lparr>script_path := None\<rparr>,
      example_world)"
  using remove_script_then_not_found [of example_runner "run_dir @ [script_file_name]" example_world]
    remove_script_then_not_found [of "example_runner\<lparr>script_path := None\<rparr>" "[]" example_world]
    example_is_file
  by (simp add: example_runner_def)

section \<open>Writing needs a run directory\<close>

lemma write_new_script_unset:
  "current_run_directory r = None \<Longrightarrow>
   write_new_script H r kw w =
     (raise ValueError ''Current run directory not set. Set it up first.'', r, w)"
  by (simp add: write_new_script_def)

lemma write_new_script_clears:
  "write_new_script H r kw w = (Inr u, r', w') \<Longrightarrow> current_run_directory r' = None"
  by (auto simp: write_new_script_def Let_def split: option.splits sum.splits)

lemma construct_unset:
  "construct exe sd dd w = (Inr r, w') \<Longrightarrow> current_run_directory r = None"
  by (auto simp: construct_def Let_def split: option.splits sum.splits if_splits)

lemma perform_keeps_unset:
  "current_run_directory (fst s) = None \<Longrightarrow> current_run_directory (fst (perform H sl s c)) = None"
proof (cases s)
  case (Pair r w)
  assume "current_run_directory (fst s) = None"
  with Pair have n: "current_run_directory r = None" by simp
  show ?thesis
  proof (cases c)
    case (Write_new_script kw)
    with Pair n show ?thesis by (simp add: write_new_script_unset)
  next
    case Prepare_subprocess_command
    with Pair n show ?thesis
      by (auto simp: prepare_subprocess_command_def Let_def split: option.splits)
  next
    case (Run_script b ch)
    with Pair n show ?thesis
      by (auto simp: run_script_def prepare_subprocess_command_def Let_def
          split: option.splits sum.splits prod.splits)
  next
    case Remove_script
    with Pair n show ?thesis
      by (auto simp: remove_script_def Let_def split: option.splits sum.splits)
  qed
qed

lemma foldl_perform_keeps_unset:
  "current_run_directory (fst s) = None \<Longrightarrow>
   current_run_directory (fst (foldl (perform H sl) s cs)) = None"
  by (induction cs arbitrary: s) (simp_all add: perform_keeps_unset)

text \<open>Claim C2. In every state whose run directory is unset, \<^verbatim>\<open>write_new_script\<close> raises
  the \<^verbatim>\<open>ValueError\<close> that asks for it and changes nothing. The run directory is unset in a
  new runner and after a \<^verbatim>\<open>write_new_script\<close> that succeeded, and it stays unset under any
  calls other than \<^verbatim>\<open>prepare_current_run_directory\<close>; so a \<^verbatim>\<open>write_new_script\<close> that follows
  such calls raises that error.\<close>

theorem write_new_script_needs_run_directory:
  "(current_run_directory r = None \<longrightarrow>
      write_new_script H r kw w =
        (raise ValueError ''Current run directory not set. Set it up first.'', r, w)) \<and>
   (write_new_script H r kw w = (Inr u, r1, w1) \<and> foldl (perform H sl) (r1, w1) calls = (r2, w2) \<longrightarrow>
      current_run_directory r1 = None \<and>
      write_new_script H r2 kw' w2 =
        (raise ValueError ''Current run directory not set. Set it up first.'', r2, w2)) \<and>
   (construct exe sd dd w = (Inr r0, w0) \<and> foldl (perform H sl) (r0, w0) calls = (r3, w3) \<longrightarrow>
      write_new_script H r3 kw' w3 =
        (raise ValueError ''Current run directory not set. Set it up first.'', r3, w3))"
proof (intro conjI impI)
  assume "current_run_directory r = None"
  then show "write_new_script H r kw w =
      (raise ValueError ''Current run directory not set. Set it up first.'', r, w)"
    by (rule write_new_script_unset)
next
  assume a: "write_new_script H r kw w = (Inr u, r1, w1) \<and>
    foldl (perform H sl) (r1, w1) calls = (r2, w2)"
  then show "current_run_directory r1 = None"
    using write_new_script_clears by blast
  then have "current_run_directory (fst (foldl (perform H sl) (r1, w1) calls)) = None"
    by (intro foldl_perform_keeps_unset) simp
  with a have "current_run_directory r2 = None" by simp
  then show "write_new_script H r2 kw' w2 =
      (raise ValueError ''Current run directory not set. Set it up first.'', r2, w2)"
    by (rule write_new_script_unset)
next
  assume a: "construct exe sd dd w = (Inr r0, w0) \<and>
    foldl (perform H sl) (r0, w0) calls = (r3, w3)"
  then have "current_run_directory r0 = None"
    using construct_unset by blast
  then have "current_run_directory (fst (foldl (perform H sl) (r0, w0) calls)) = None"
    by (intro foldl_perform_keeps_unset) simp
  with a have "current_run_directory r3 = None" by simp
  then show "write_new_script H r3 kw' w3 =
      (raise ValueError ''Current run directory not set. Set it up first.'', r3, w3)"
    by (rule write_new_script_unset)
qed

theorem write_new_script_sequence_example:
  "fst (write_new_script text_host example_runner [''name'' \<mapsto> ''World''] example_world) = Inr () \<and>
   (let s = foldl (perform text_host concat)
              (snd (write_new_script text_host example_runner [''name'' \<mapsto> ''World''] example_world))
              [Remove_script, Prepare_subprocess_command]
    in write_new_script text_host (fst s) [''name'' \<mapsto> ''World''] (snd s) =
         (raise ValueError ''Current run directory not set. Set it up first.'', fst s, snd s)) \<and>
   fst (construct (Some [''bc'']) ''Hello {name}'' [''data''] example_world) \<noteq>
     raise EnvironmentError (not_found_msg (Some [''bc''])) \<and>
   (let s = foldl (perform text_host concat)
              (projr (fst (construct (Some [''bc'']) ''Hello {name}'' [''data''] example_world)),
               snd (construct (Some [''bc'']) ''Hello {name}'' [''data''] example_world))
              [Write_new_script [''name'' \<mapsto> ''World'']]
    in write_new_script text_host (fst s) [''name'' \<mapsto> ''World''] (snd s) =
         (raise ValueError ''Current run directory not set. Set it up first.'', fst s, snd s)) \<and>
   write_new_script text_host (example_runner\<lparr>current_run_directory := None\<rparr>) Map.empty example_world =
     (raise ValueError ''Current run directory not set. Set it up first.'',
      example_runner\<lparr>current_run_directory := None\<rparr>, example_world)"
proof -
  let ?kw = "[''name'' \<mapsto> ''World'']"
  let ?res = "write_new_script text_host example_runner ?kw example_world"
  let ?s = "foldl (perform text_host concat) (snd ?res) [Remove_script, Prepare_subprocess_command]"
  let ?c = "construct (Some [''bc'']) ''Hello {name}'' [''data''] example_world"
  let ?t = "foldl (perform text_host concat) (projr (fst ?c), snd ?c) [Write_new_script ?kw]"
  have ok: "fst ?res = Inr ()"
    by (simp add: write_new_script_def example_runner_def example_world_def example_format Let_def
        open_w_def run_dir_def script_file_name_def)
  then have 1: "?res = (Inr (), fst (snd ?res), snd (snd ?res))"
    by (metis prod.collapse)
  have 2: "foldl (perform text_host concat) (fst (snd ?res), snd (snd ?res))
             [Remove_script, Prepare_subprocess_command] = (fst ?s, snd ?s)"
    by simp
  have "fst ?c = Inr (projr (fst ?c))"
    by (simp add: construct_def example_world_def mkdir.simps os_mkdir_def os_stat_def
        apply_umask_def is_dir_def logger_def run_dir_def script_file_name_def parent_def)
  then have 3: "?c = (Inr (projr (fst ?c)), snd ?c)"
    by (metis prod.collapse)
  then have 4: "fst ?c \<noteq> raise EnvironmentError (not_found_msg (Some [''bc'']))"
    by (metis fst_conv sum.distinct(1))
  have 5: "foldl (perform text_host concat) (projr (fst ?c), snd ?c) [Write_new_script ?kw] =
             (fst ?t, snd ?t)"
    by simp
  show ?thesis
    using write_new_script_needs_run_directory
      [where r = example_runner and H = text_host and kw = ?kw and w = example_world and
        u = "()" and ?r1.0 = "fst (snd ?res)" and ?w1.0 = "snd (snd ?res)" and sl = concat and
        calls = "[Remove_script, Prepare_subprocess_command]" and ?r2.0 = "fst ?s" and
        ?w2.0 = "snd ?s" and kw' = ?kw]
      write_new_script_needs_run_directory
      [where r = "example_runner\<lparr>current_run_directory := None\<rparr>" and H = text_host and
        kw = Map.empty and w = example_world and exe = "Some [''bc'']" and sd = "''Hello {name}''" and
        dd = "[''data'']" and ?r0.0 = "projr (fst ?c)" and ?w0.0 = "snd ?c" and sl = concat and
        calls = "[Write_new_script ?kw]" and ?r3.0 = "fst ?t" and ?w3.0 = "snd ?t" and kw' = ?kw]
      ok 1 2 3 4 5
    unfolding Let_def by (simp add: example_runner_def)
qed

section \<open>The executable check\<close>

text \<open>Claim C5. A runner is to be refused when its executable is missing. The data
  directory is made first, though, with its parents: when the executable path is one of them,
  the path that was missing is by then a directory with the search bits of mode \<^verbatim>\<open>0o755\<close>, the
  check passes, and the runner is made. Here the file system holds the root directory only,
  the executable path is \<^verbatim>\<open>/bc\<close> and the data directory \<^verbatim>\<open>/bc/data\<close>.\<close>

theorem construct_missing_executable_accepted:
  "\<not> path_exists (fs fresh_world) [''bc''] \<and>
   fst (construct (Some [''bc'']) ''script'' [''bc'', ''data''] fresh_world) =
     Inr \<lparr>executable_path = Some [''bc''], script_data = ''script'',
          data_directory = [''bc'', ''data''], subprocess_command = None,
          current_run_directory = None, script_path = None\<rparr>"
  by (simp add: construct_def fresh_world_def mkdir.simps os_mkdir_def os_stat_def apply_umask_def
      parent_def is_dir_def logger_def path_exists_def)

end
